theory Spec2Isabelle
  imports Complex_Main "HOL-Library.Signed_Division"
begin

section \<open>Data model of \<^verbatim>\<open>lang_model.C\<close>\<close>

text \<open>
  The failures of the program are values.  \<open>VocabMissing\<close> and \<open>InvalidNgramSize\<close> are the
  two \<^verbatim>\<open>runtime_error\<close>s the source throws itself.  The other three are the places where
  the C++ leaves defined behaviour: a \<^verbatim>\<open>vector<int>\<close> built from an iterator range whose
  start lies beyond its end (\<open>InvalidRange\<close>), an \<^verbatim>\<open>int\<close> division whose divisor is
  zero (\<open>DivideByZero\<close>), and an access to a local array beyond its declared size
  (\<open>IndexOutOfBounds\<close>).
\<close>

datatype error = VocabMissing | InvalidNgramSize | InvalidRange | DivideByZero | IndexOutOfBounds

text \<open>
  Modelled from the spec: the class \<^verbatim>\<open>NGramCounter\<close> is declared in a header that is not
  among the sources.  Section 4.2 of the specification and the comments of
  \<^verbatim>\<open>count_sentence_ngrams\<close> describe it: a mapping from a sequence of token ids to a
  count, \<^verbatim>\<open>get_count\<close> returning 0 for a sequence never incremented, and
  \<^verbatim>\<open>incr_count\<close> adding one.  The incremented count that \<^verbatim>\<open>incr_count\<close> returns is
  discarded at each of its call sites, so the model returns the updated counter only.
  Counts are C++ \<^verbatim>\<open>int\<close>s, taken here as unbounded integers.
\<close>

type_synonym NGramCounter = "int list \<rightharpoonup> int"

definition get_count :: "NGramCounter \<Rightarrow> int list \<Rightarrow> int" where
  "get_count c ngram = (case c ngram of None \<Rightarrow> 0 | Some k \<Rightarrow> k)"

definition incr_count :: "NGramCounter \<Rightarrow> int list \<Rightarrow> NGramCounter" where
  "incr_count c ngram = c(ngram \<mapsto> get_count c ngram + 1)"

text \<open>
  Modelled from the spec: the class \<^verbatim>\<open>SymbolTable\<close> is external as well.  The
  constructor of \<^verbatim>\<open>LangModel\<close> shows that \<^verbatim>\<open>get_index\<close> answers \<open>-1\<close> for a token
  that is absent; \<^verbatim>\<open>size\<close> counts the entries, the epsilon placeholder included.
\<close>

type_synonym SymbolTable = "(string \<times> int) list"

definition get_index :: "SymbolTable \<Rightarrow> string \<Rightarrow> int" where
  "get_index tab s = (case map_of tab s of None \<Rightarrow> - 1 | Some i \<Rightarrow> i)"

definition table_size :: "SymbolTable \<Rightarrow> int" where
  "table_size tab = int (length tab)"

record LangModel =
  m_symTable :: SymbolTable
  m_bosIdx :: int
  m_eosIdx :: int
  m_unkIdx :: int
  m_n :: int
  m_predCounts :: NGramCounter
  m_histCounts :: NGramCounter
  m_histOnePlusCounts :: NGramCounter

section \<open>Training: \<^verbatim>\<open>count_sentence_ngrams\<close> and the constructor\<close>

text \<open>
  One pass of the inner loop body, for the start position \<open>it\<close> (an offset from
  \<^verbatim>\<open>wordList.begin()\<close>) and the length \<open>i\<close>.  \<^verbatim>\<open>min(it + i, wordList.end())\<close> clamps
  the end of the cut to the end of the sentence.  The test on the predicted count reads
  the counter after its increment.  The guard \<^verbatim>\<open>last1 + 1 < wordList.end()\<close> compares
  positions, here offsets.
\<close>

definition count_step :: "int list \<Rightarrow> nat \<Rightarrow> nat \<Rightarrow> LangModel \<Rightarrow> LangModel" where
  "count_step wordList it i m =
     (let last1 = min (it + i) (length wordList);
          cut1_vector = take (last1 - it) (drop it wordList);
          m1 = m\<lparr>m_predCounts := incr_count (m_predCounts m) cut1_vector\<rparr>
      in if last1 + 1 < length wordList then
           (let m2 = m1\<lparr>m_histCounts := incr_count (m_histCounts m1) cut1_vector\<rparr>
            in if 0 < i \<and> get_count (m_predCounts m2) cut1_vector < 2 then
                 (let cut2_vector = take (it + i - 1 - it) (drop it wordList)
                  in m2\<lparr>m_histOnePlusCounts :=
                          incr_count (m_histOnePlusCounts m2) cut2_vector\<rparr>)
               else m2)
         else m1)"

text \<open>The two loops: \<open>it\<close> over every position of the sentence, \<open>i\<close> from 0 to \<open>m_n\<close>
  inclusive.\<close>

definition count_sentence_ngrams :: "int list \<Rightarrow> LangModel \<Rightarrow> LangModel" where
  "count_sentence_ngrams wordList m =
     fold (\<lambda>it. fold (\<lambda>i. count_step wordList it i) [0..<nat (m_n m + 1)])
       [0..<length wordList] m"

text \<open>
  Modelled from the spec: \<^verbatim>\<open>convert_words_to_indices\<close> is defined outside the sources.
  Section 4.3 of the specification and the comment of \<^verbatim>\<open>count_sentence_ngrams\<close> give
  its result: \<open>n - 1\<close> begin markers, the ids of the words (the unknown id for a word the
  table lacks), one end marker.
\<close>

definition convert_words_to_indices ::
  "string list \<Rightarrow> SymbolTable \<Rightarrow> int \<Rightarrow> int \<Rightarrow> int \<Rightarrow> int \<Rightarrow> int list" where
  "convert_words_to_indices wordList tab n bos eos unk =
     replicate (nat (n - 1)) bos
       @ map (\<lambda>w. if get_index tab w = - 1 then unk else get_index tab w) wordList
       @ [eos]"

text \<open>
  The constructor.  Its arguments are what the parameter map and the two files resolve
  to: the symbol table, the three reserved tokens, the order and the lines of the
  training file, each split into words.  Writing the count file changes no state and is
  left out.
\<close>

definition LangModel_new ::
  "SymbolTable \<Rightarrow> string \<Rightarrow> string \<Rightarrow> string \<Rightarrow> int \<Rightarrow> string list list \<Rightarrow> error + LangModel" where
  "LangModel_new tab bos eos unk n train =
     (let m0 = \<lparr>m_symTable = tab, m_bosIdx = get_index tab bos, m_eosIdx = get_index tab eos,
                m_unkIdx = get_index tab unk, m_n = n, m_predCounts = Map.empty,
                m_histCounts = Map.empty, m_histOnePlusCounts = Map.empty\<rparr>
      in if m_bosIdx m0 = - 1 \<or> m_eosIdx m0 = - 1 \<or> m_unkIdx m0 = - 1 then Inl VocabMissing
         else Inr (fold (\<lambda>wordList m.
                      count_sentence_ngrams
                        (convert_words_to_indices wordList (m_symTable m) (m_n m)
                           (m_bosIdx m) (m_eosIdx m) (m_unkIdx m)) m)
                    train m0))"

section \<open>The estimator: \<^verbatim>\<open>get_prob_witten_bell\<close> and \<^verbatim>\<open>get_prob\<close>\<close>

text \<open>
  A \<^verbatim>\<open>double\<close> is a real number or a value that is not one (an infinity or a NaN);
  rounding is not modelled.  A \<^verbatim>\<open>double\<close> division by zero raises nothing: it yields
  such a value, and every operation on one yields one again.  (The one exception of IEEE
  arithmetic, a finite number divided by an infinity, does not arise: each divisor below
  is a sum of finite values.)
\<close>

datatype double = Fin real | NonFin

fun dadd :: "double \<Rightarrow> double \<Rightarrow> double" where
  "dadd (Fin a) (Fin b) = Fin (a + b)"
| "dadd _ _ = NonFin"

fun dsub :: "double \<Rightarrow> double \<Rightarrow> double" where
  "dsub (Fin a) (Fin b) = Fin (a - b)"
| "dsub _ _ = NonFin"

fun dmul :: "double \<Rightarrow> double \<Rightarrow> double" where
  "dmul (Fin a) (Fin b) = Fin (a * b)"
| "dmul _ _ = NonFin"

fun ddiv :: "double \<Rightarrow> double \<Rightarrow> double" where
  "ddiv (Fin a) (Fin b) = (if b = 0 then NonFin else Fin (a / b))"
| "ddiv _ _ = NonFin"

definition of_count :: "int \<Rightarrow> double" where
  "of_count k = Fin (of_int k)"

text \<open>\<^verbatim>\<open>vector<int>(ngram.begin() + a, ngram.end())\<close>: the range is valid only while the
  start does not pass the end.\<close>

definition range_from :: "int list \<Rightarrow> nat \<Rightarrow> error + int list" where
  "range_from ngram a = (if a \<le> length ngram then Inr (drop a ngram) else Inl InvalidRange)"

text \<open>Division of two \<^verbatim>\<open>int\<close>s: the quotient is truncated towards zero, and a zero
  divisor is a failure.\<close>

definition int_divide :: "int \<Rightarrow> int \<Rightarrow> error + int" where
  "int_divide a b = (if b = 0 then Inl DivideByZero else Inr (a sdiv b))"

text \<open>The local arrays \<^verbatim>\<open>p[m_n+1]\<close> and \<^verbatim>\<open>lambda[m_n]\<close> are lists of their declared
  length; a store or a load checks the index against it.\<close>

definition store :: "double list \<Rightarrow> nat \<Rightarrow> double \<Rightarrow> error + double list" where
  "store a i v = (if i < length a then Inr (a[i := v]) else Inl IndexOutOfBounds)"

definition load :: "double list \<Rightarrow> nat \<Rightarrow> error + double" where
  "load a i = (if i < length a then Inr (a ! i) else Inl IndexOutOfBounds)"

text \<open>
  The loop over \<open>k\<close> adds the counts of the one-token sequences \<open>[0], \<dots>, [vocSize - 1]\<close> to
  the two accumulators.  The source declares both without an initial value; the model
  takes what they hold at that moment as the arguments \<open>acc0\<close> and \<open>acc1\<close>.
\<close>

definition accumulate ::
  "LangModel \<Rightarrow> int \<Rightarrow> double \<times> double \<Rightarrow> double \<times> double" where
  "accumulate m vocSize accs =
     fold (\<lambda>k (acc_histCounts, acc_histOnePlusCounts).
             (dadd acc_histCounts (of_count (get_count (m_histCounts m) [int k])),
              dadd acc_histOnePlusCounts (of_count (get_count (m_histOnePlusCounts m) [int k]))))
       [0..<nat vocSize] accs"

text \<open>One pass of the loop that fills \<open>p\<close> and \<open>lambda\<close>, at index \<open>i\<close>.\<close>

definition fill_step ::
  "LangModel \<Rightarrow> int \<Rightarrow> double \<times> double \<Rightarrow> int list \<Rightarrow> nat \<Rightarrow>
     double list \<times> double list \<Rightarrow> error + double list \<times> double list" where
  "fill_step m vocSize accs ngram i arrays =
     (case arrays of (p, lambda) \<Rightarrow>
      case accs of (acc_histCounts, acc_histOnePlusCounts) \<Rightarrow>
      case range_from ngram i of Inl e \<Rightarrow> Inl e
      | Inr c_iter \<Rightarrow>
          if int i + 1 = m_n m then
            (case store p i (ddiv (Fin 1) (of_count vocSize)) of Inl e \<Rightarrow> Inl e
             | Inr p' \<Rightarrow>
                 (case store lambda i
                         (ddiv (dmul acc_histCounts (Fin 1))
                            (dadd acc_histCounts acc_histOnePlusCounts)) of
                    Inl e \<Rightarrow> Inl e
                  | Inr lambda' \<Rightarrow> Inr (p', lambda')))
          else
            (case range_from ngram (i + 1) of Inl e \<Rightarrow> Inl e
             | Inr c_iter1 \<Rightarrow>
                 (case int_divide (get_count (m_predCounts m) c_iter)
                         (get_count (m_predCounts m) c_iter1) of
                    Inl e \<Rightarrow> Inl e
                  | Inr q \<Rightarrow>
                      (case store p i (of_count q) of Inl e \<Rightarrow> Inl e
                       | Inr p' \<Rightarrow>
                           (case store lambda i
                                   (ddiv (dmul (of_count (get_count (m_histCounts m) c_iter)) (Fin 1))
                                      (of_count (get_count (m_histCounts m) c_iter
                                                 + get_count (m_histOnePlusCounts m) c_iter))) of
                              Inl e \<Rightarrow> Inl e
                            | Inr lambda' \<Rightarrow> Inr (p', lambda'))))))"

fun fill_loop ::
  "LangModel \<Rightarrow> int \<Rightarrow> double \<times> double \<Rightarrow> int list \<Rightarrow> nat list \<Rightarrow>
     double list \<times> double list \<Rightarrow> error + double list \<times> double list" where
  "fill_loop m vocSize accs ngram [] arrays = Inr arrays"
| "fill_loop m vocSize accs ngram (i # is) arrays =
     (case fill_step m vocSize accs ngram i arrays of Inl e \<Rightarrow> Inl e
      | Inr arrays' \<Rightarrow> fill_loop m vocSize accs ngram is arrays')"

text \<open>One pass of the last loop, at index \<open>i\<close>; the source keeps a second branch for
  \<open>i = 0\<close>, which the loop never reaches.\<close>

definition sum_step ::
  "double \<Rightarrow> double list \<times> double list \<Rightarrow> nat \<Rightarrow> double \<Rightarrow> error + double" where
  "sum_step prob_eps arrays i retProb =
     (case arrays of (p, lambda) \<Rightarrow>
      case load lambda i of Inl e \<Rightarrow> Inl e
      | Inr l \<Rightarrow>
          (case load p i of Inl e \<Rightarrow> Inl e
           | Inr p_i \<Rightarrow>
               if 0 < i then
                 (case load p (i - 1) of Inl e \<Rightarrow> Inl e
                  | Inr p_j \<Rightarrow>
                      Inr (dadd retProb (dadd (dmul l p_i) (dmul (dsub (Fin 1) l) p_j))))
               else Inr (dadd retProb (dadd (dmul l p_i) (dmul (dsub (Fin 1) l) prob_eps)))))"

fun sum_loop ::
  "double \<Rightarrow> double list \<times> double list \<Rightarrow> nat list \<Rightarrow> double \<Rightarrow> error + double" where
  "sum_loop prob_eps arrays [] retProb = Inr retProb"
| "sum_loop prob_eps arrays (i # is) retProb =
     (case sum_step prob_eps arrays i retProb of Inl e \<Rightarrow> Inl e
      | Inr retProb' \<Rightarrow> sum_loop prob_eps arrays is retProb')"

text \<open>
  The whole routine.  The entries of \<open>p\<close> and \<open>lambda\<close> start without a value in the
  source; the first loop writes each entry it can reach before the last loop reads it, so
  the model starts them at zero.
\<close>

definition get_prob_witten_bell ::
  "LangModel \<Rightarrow> real \<Rightarrow> real \<Rightarrow> int list \<Rightarrow> error + double" where
  "get_prob_witten_bell m acc0 acc1 ngram =
     (let retProb = Fin 1;
          vocSize = table_size (m_symTable m) - 1;
          prob_eps = ddiv (Fin 1) (of_count vocSize);
          accs = accumulate m vocSize (Fin acc0, Fin acc1);
          p = replicate (nat (m_n m + 1)) (Fin 0);
          lambda = replicate (nat (m_n m)) (Fin 0)
      in case fill_loop m vocSize accs ngram [0..<nat (m_n m + 1)] (p, lambda) of
           Inl e \<Rightarrow> Inl e
         | Inr arrays \<Rightarrow> sum_loop prob_eps arrays (rev [1..<Suc (nat (m_n m))]) retProb)"

definition get_prob :: "LangModel \<Rightarrow> real \<Rightarrow> real \<Rightarrow> int list \<Rightarrow> error + double" where
  "get_prob m acc0 acc1 ngram =
     (if length ngram < 1 \<or> int (length ngram) > m_n m then Inl InvalidNgramSize
      else get_prob_witten_bell m acc0 acc1 ngram)"

section \<open>The rules of the specification, for comparison\<close>

text \<open>
  The counting rule as section 4.3 of the specification words it (not taken from the
  source): for every position \<open>t\<close> behind the leading padding and every history length
  \<open>k = 0, \<dots>, N - 1\<close> that does not reach before position 0, with \<open>h\<close> the \<open>k\<close> tokens before
  \<open>t\<close> and \<open>w\<close> the token at \<open>t\<close>: count \<open>h @ [w]\<close> as predicted, count \<open>h\<close> as a history, and
  count \<open>h\<close> once more in the third counter when \<open>h @ [w]\<close> had count 0 before.
\<close>

definition spec_count_step :: "int list \<Rightarrow> nat \<Rightarrow> nat \<Rightarrow> LangModel \<Rightarrow> LangModel" where
  "spec_count_step wordList t k m =
     (let h = take k (drop (t - k) wordList);
          w = wordList ! t;
          c_before = get_count (m_predCounts m) (h @ [w]);
          m1 = m\<lparr>m_predCounts := incr_count (m_predCounts m) (h @ [w])\<rparr>;
          m2 = m1\<lparr>m_histCounts := incr_count (m_histCounts m1) h\<rparr>
      in if c_before = 0
         then m2\<lparr>m_histOnePlusCounts := incr_count (m_histOnePlusCounts m2) h\<rparr>
         else m2)"

definition spec_count_sentence :: "int list \<Rightarrow> LangModel \<Rightarrow> LangModel" where
  "spec_count_sentence wordList m =
     fold (\<lambda>t. fold (\<lambda>k m'. if k \<le> t then spec_count_step wordList t k m' else m')
                  [0..<nat (m_n m)])
       [nat (m_n m - 1)..<length wordList] m"

text \<open>
  The recursion of section 4.4 of the specification (not taken from the source), over the
  counters of a model: \<open>\<lambda>(h) = C(h) / (C(h) + U(h))\<close>, and 0 when \<open>C(h) = 0\<close>; the
  maximum-likelihood term is left out when \<open>\<lambda>(h) = 0\<close>; the empty history backs off to
  \<open>1 / V\<close>.
\<close>

definition spec_lambda :: "LangModel \<Rightarrow> int list \<Rightarrow> real" where
  "spec_lambda m h =
     (if get_count (m_histCounts m) h = 0 then 0
      else of_int (get_count (m_histCounts m) h)
           / of_int (get_count (m_histCounts m) h + get_count (m_histOnePlusCounts m) h))"

definition spec_ml_term :: "LangModel \<Rightarrow> int list \<Rightarrow> int \<Rightarrow> real" where
  "spec_ml_term m h w =
     (if spec_lambda m h = 0 then 0
      else spec_lambda m h
           * (of_int (get_count (m_predCounts m) (h @ [w])) / of_int (get_count (m_histCounts m) h)))"

fun spec_prob :: "LangModel \<Rightarrow> int list \<Rightarrow> int \<Rightarrow> real" where
  "spec_prob m [] w =
     spec_ml_term m [] w
       + (1 - spec_lambda m []) * (1 / of_int (table_size (m_symTable m) - 1))"
| "spec_prob m (x # h') w =
     spec_ml_term m (x # h') w + (1 - spec_lambda m (x # h')) * spec_prob m h' w"

section \<open>The scenario of the specification\<close>

text \<open>The vocabulary of section 8 of the specification, behind the epsilon placeholder
  that \<^verbatim>\<open>get_prob_witten_bell\<close> leaves out of the vocabulary size.\<close>

definition scenario_table :: SymbolTable where
  "scenario_table =
     [(''<epsilon>'', 0), (''<s>'', 1), (''</s>'', 2), (''<UNK>'', 3),
      (''the'', 4), (''cat'', 5), (''sat'', 6)]"

text \<open>A model of order \<open>n\<close> over that vocabulary before its first sentence.\<close>

definition untrained :: "int \<Rightarrow> LangModel" where
  "untrained n =
     \<lparr>m_symTable = scenario_table, m_bosIdx = 1, m_eosIdx = 2, m_unkIdx = 3, m_n = n,
      m_predCounts = Map.empty, m_histCounts = Map.empty, m_histOnePlusCounts = Map.empty\<rparr>"

section \<open>Facts about the estimator\<close>

lemmas train_eval =
  LangModel_new_def get_index_def scenario_table_def convert_words_to_indices_def
  count_sentence_ngrams_def count_step_def incr_count_def get_count_def Let_def upt_rec

lemmas query_eval =
  get_prob_def get_prob_witten_bell_def fill_step_def range_from_def int_divide_def
  store_def table_size_def accumulate_def of_count_def

lemmas run_eval = train_eval query_eval untrained_def

lemmas spec_eval = spec_count_sentence_def spec_count_step_def spec_lambda_def spec_ml_term_def

text \<open>The loop over a list of indices that ends in \<open>ys\<close> runs \<open>ys\<close> from where the
  indices before it stopped.\<close>

lemma fill_loop_append:
  "fill_loop m V accs ng (xs @ ys) st =
     (case fill_loop m V accs ng xs st of Inl e \<Rightarrow> Inl e
      | Inr st' \<Rightarrow> fill_loop m V accs ng ys st')"
  by (induction xs arbitrary: st) (auto split: sum.splits)

lemma upt_last_index: "0 \<le> (n::int) \<Longrightarrow> [0..<nat (n + 1)] = [0..<nat n] @ [nat n]"
  by (simp add: nat_add_distrib)

text \<open>
  The pass at \<open>i = m_n\<close>: \<open>i + 1 = m_n\<close> is false, so the second range,
  \<^verbatim>\<open>ngram.begin() + m_n + 1\<close> to \<^verbatim>\<open>ngram.end()\<close>, is formed, and an n-gram of at most
  \<open>m_n\<close> tokens is too short for it (when it is not already too short for the first).
\<close>

lemma fill_step_last:
  assumes "0 \<le> m_n m" and "int (length ng) \<le> m_n m"
  shows "fill_step m V accs ng (nat (m_n m)) st = Inl InvalidRange"
  using assms
  by (cases st; cases accs) (auto simp: fill_step_def range_from_def split: sum.splits)

lemma fill_step_length:
  "fill_step m V accs ng i (p, l) = Inr (p', l') \<Longrightarrow>
     length p' = length p \<and> length l' = length l"
  by (cases accs)
     (auto simp: fill_step_def range_from_def int_divide_def store_def
           split: sum.splits if_splits)

text \<open>Whether a pass fails, and how, depends neither on the accumulators nor on what
  the arrays hold.\<close>

lemma fill_step_shape:
  assumes "length p2 = length p1" and "length l2 = length l1"
  shows "(case fill_step m V accs1 ng i (p1, l1) of
            Inl e \<Rightarrow> fill_step m V accs2 ng i (p2, l2) = Inl e
          | Inr _ \<Rightarrow> \<exists>st. fill_step m V accs2 ng i (p2, l2) = Inr st)"
  using assms
  by (cases accs1; cases accs2)
     (auto simp: fill_step_def range_from_def int_divide_def store_def
           split: sum.splits if_splits)

lemma fill_loop_failure_independent:
  assumes "fill_loop m V accs1 ng is (p1, l1) = Inl e"
    and "length p2 = length p1" and "length l2 = length l1"
  shows "fill_loop m V accs2 ng is (p2, l2) = Inl e"
  using assms
proof (induction "is" arbitrary: p1 l1 p2 l2)
  case Nil
  then show ?case by simp
next
  case (Cons i "is")
  note shape = fill_step_shape [OF Cons.prems(2) Cons.prems(3),
      where m = m and V = V and ?accs1.0 = accs1 and ng = ng and i = i and ?accs2.0 = accs2]
  show ?case
  proof (cases "fill_step m V accs1 ng i (p1, l1)")
    case (Inl e')
    with Cons.prems(1) have "e' = e" by simp
    with Inl shape show ?thesis by simp
  next
    case (Inr st1)
    obtain p1' l1' where st1: "st1 = (p1', l1')" by (cases st1)
    from Inr shape obtain st2 where step2: "fill_step m V accs2 ng i (p2, l2) = Inr st2"
      by auto
    obtain p2' l2' where st2: "st2 = (p2', l2')" by (cases st2)
    from fill_step_length Inr st1
    have len1: "length p1' = length p1 \<and> length l1' = length l1" by blast
    from fill_step_length step2 st2
    have len2: "length p2' = length p2 \<and> length l2' = length l2" by blast
    from Cons.prems(1) Inr st1 have rest: "fill_loop m V accs1 ng is (p1', l1') = Inl e"
      by simp
    have "fill_loop m V accs2 ng is (p2', l2') = Inl e"
    proof (rule Cons.IH [of p1' l1' p2' l2'])
      show "fill_loop m V accs1 ng is (p1', l1') = Inl e" by (fact rest)
      show "length p2' = length p1'" using len1 len2 Cons.prems(2) by simp
      show "length l2' = length l1'" using len1 len2 Cons.prems(3) by simp
    qed
    with step2 st2 show ?thesis by simp
  qed
qed

text \<open>A pass whose index lies inside both arrays fails only at a range or at an integer
  division.\<close>

lemma fill_step_failure_kind:
  assumes "fill_step m V accs ng i (p, l) = Inl e" and "i < length p" and "i < length l"
  shows "e = InvalidRange \<or> e = DivideByZero"
  using assms
  by (cases accs)
     (auto simp: fill_step_def range_from_def int_divide_def store_def
           split: sum.splits if_splits)

lemma fill_loop_failure_kind:
  assumes "fill_loop m V accs ng is (p, l) = Inl e"
    and "\<And>i. i \<in> set is \<Longrightarrow> i < length p \<and> i < length l"
  shows "e = InvalidRange \<or> e = DivideByZero"
  using assms
proof (induction "is" arbitrary: p l)
  case Nil
  then show ?case by simp
next
  case (Cons i "is")
  show ?case
  proof (cases "fill_step m V accs ng i (p, l)")
    case (Inl e')
    with Cons.prems(1) have "e' = e" by simp
    with Inl Cons.prems(2) [of i] show ?thesis
      using fill_step_failure_kind [of m V accs ng i p l e] by simp
  next
    case (Inr st')
    obtain p' l' where st': "st' = (p', l')" by (cases st')
    from fill_step_length Inr st'
    have len: "length p' = length p \<and> length l' = length l" by blast
    from Cons.prems(1) Inr st' have "fill_loop m V accs ng is (p', l') = Inl e" by simp
    then show ?thesis
      using len Cons.prems(2) by (intro Cons.IH [of p' l']) simp_all
  qed
qed

text \<open>The first loop of \<^verbatim>\<open>get_prob_witten_bell\<close> never completes on an n-gram of at
  most \<open>m_n\<close> tokens.\<close>

lemma fill_loop_fails:
  assumes "0 \<le> m_n m" and "int (length ng) \<le> m_n m"
    and "length p = nat (m_n m + 1)" and "length l = nat (m_n m)"
  shows "fill_loop m V accs ng [0..<nat (m_n m + 1)] (p, l) = Inl InvalidRange
       \<or> fill_loop m V accs ng [0..<nat (m_n m + 1)] (p, l) = Inl DivideByZero"
proof (cases "fill_loop m V accs ng [0..<nat (m_n m)] (p, l)")
  case (Inl e)
  have "\<And>i. i \<in> set [0..<nat (m_n m)] \<Longrightarrow> i < length p \<and> i < length l"
    using assms(1,3,4) by auto
  with Inl have "e = InvalidRange \<or> e = DivideByZero"
    by (rule fill_loop_failure_kind)
  with Inl assms(1) show ?thesis
    by (auto simp: upt_last_index fill_loop_append)
next
  case (Inr st')
  with assms(1,2) show ?thesis
    by (simp add: upt_last_index fill_loop_append fill_step_last)
qed

lemma witten_bell_fails:
  assumes "0 \<le> m_n m" and "int (length ng) \<le> m_n m"
  shows "get_prob_witten_bell m acc0 acc1 ng = Inl InvalidRange
       \<or> get_prob_witten_bell m acc0 acc1 ng = Inl DivideByZero"
  using fill_loop_fails [OF assms, of "replicate (nat (m_n m + 1)) (Fin 0)"
      "replicate (nat (m_n m)) (Fin 0)" "table_size (m_symTable m) - 1"
      "accumulate m (table_size (m_symTable m) - 1) (Fin acc0, Fin acc1)"]
  by (auto simp: get_prob_witten_bell_def Let_def)

lemma witten_bell_independent:
  assumes "0 \<le> m_n m" and "int (length ng) \<le> m_n m"
  shows "get_prob_witten_bell m a0 a1 ng = get_prob_witten_bell m b0 b1 ng"
proof -
  let ?V = "table_size (m_symTable m) - 1"
  let ?p = "replicate (nat (m_n m + 1)) (Fin 0)"
  let ?l = "replicate (nat (m_n m)) (Fin 0)"
  let ?is = "[0..<nat (m_n m + 1)]"
  from fill_loop_fails [OF assms, of ?p ?l ?V "accumulate m ?V (Fin a0, Fin a1)"]
  obtain e where a: "fill_loop m ?V (accumulate m ?V (Fin a0, Fin a1)) ng ?is (?p, ?l) = Inl e"
    by auto
  then have "fill_loop m ?V (accumulate m ?V (Fin b0, Fin b1)) ng ?is (?p, ?l) = Inl e"
    by (rule fill_loop_failure_independent) simp_all
  with a show ?thesis by (simp add: get_prob_witten_bell_def Let_def)
qed

lemma get_prob_independent: "get_prob m a0 a1 ng = get_prob m b0 b1 ng"
proof (cases "length ng < 1 \<or> int (length ng) > m_n m")
  case True
  then show ?thesis by (simp add: get_prob_def)
next
  case False
  then have "0 \<le> m_n m" and "int (length ng) \<le> m_n m" by auto
  then have "get_prob_witten_bell m a0 a1 ng = get_prob_witten_bell m b0 b1 ng"
    by (rule witten_bell_independent)
  with False show ?thesis by (simp add: get_prob_def)
qed

text \<open>No failure inside \<^verbatim>\<open>get_prob_witten_bell\<close> is the error of \<^verbatim>\<open>get_prob\<close>'s own
  size check.\<close>

lemma fill_step_error: "fill_step m V accs ng i st = Inl e \<Longrightarrow> e \<noteq> InvalidNgramSize"
  by (cases st; cases accs)
     (auto simp: fill_step_def range_from_def int_divide_def store_def
           split: sum.splits if_splits)

lemma fill_loop_error: "fill_loop m V accs ng is st = Inl e \<Longrightarrow> e \<noteq> InvalidNgramSize"
  by (induction "is" arbitrary: st) (auto split: sum.splits dest: fill_step_error)

lemma sum_step_error: "sum_step eps st i r = Inl e \<Longrightarrow> e \<noteq> InvalidNgramSize"
  by (cases st) (auto simp: sum_step_def load_def split: sum.splits if_splits)

lemma sum_loop_error: "sum_loop eps st is r = Inl e \<Longrightarrow> e \<noteq> InvalidNgramSize"
  by (induction "is" arbitrary: r) (auto split: sum.splits dest: sum_step_error)

lemma witten_bell_error: "get_prob_witten_bell m a0 a1 ng = Inl e \<Longrightarrow> e \<noteq> InvalidNgramSize"
  unfolding get_prob_witten_bell_def Let_def
  by (auto split: sum.splits dest: fill_loop_error sum_loop_error)

lemma scenario_trains:
  "\<exists>m. LangModel_new scenario_table ''<s>'' ''</s>'' ''<UNK>'' n train = Inr m"
  by (simp add: LangModel_new_def get_index_def scenario_table_def Let_def)

section \<open>The size check of \<^verbatim>\<open>get_prob\<close>\<close>

text \<open>
  C8.  \<^verbatim>\<open>get_prob\<close> raises its invalid-size error if and only if the n-gram has length 0
  or a length greater than \<open>N\<close>, and the model is unchanged on that error.  The method is
  \<^verbatim>\<open>const\<close>: it returns an outcome and no model, so the model after the call is the
  model before it.  Every other failure of the call is a different error.
\<close>

theorem get_prob_invalid_size_iff:
  "get_prob m acc0 acc1 ngram = Inl InvalidNgramSize
     \<longleftrightarrow> length ngram = 0 \<or> int (length ngram) > m_n m"
proof (cases "length ngram < 1 \<or> int (length ngram) > m_n m")
  case True
  then show ?thesis by (auto simp: get_prob_def)
next
  case False
  then have "get_prob m acc0 acc1 ngram = get_prob_witten_bell m acc0 acc1 ngram"
    by (simp add: get_prob_def)
  moreover have "get_prob_witten_bell m acc0 acc1 ngram \<noteq> Inl InvalidNgramSize"
    using witten_bell_error by blast
  ultimately show ?thesis using False by auto
qed

theorem get_prob_invalid_size_iff_witness:
  "get_prob (untrained 2) 0 0 [] = Inl InvalidNgramSize
   \<and> get_prob (untrained 2) 0 0 [4, 5, 6] = Inl InvalidNgramSize
   \<and> get_prob (untrained 2) 0 0 [4, 5] \<noteq> Inl InvalidNgramSize"
  using get_prob_invalid_size_iff [of "untrained 2" 0 0 "[]"]
    get_prob_invalid_size_iff [of "untrained 2" 0 0 "[4, 5, 6]"]
    get_prob_invalid_size_iff [of "untrained 2" 0 0 "[4, 5]"]
  by (simp add: untrained_def)

section \<open>Determinism\<close>


section \<open>The ranges formed by the estimator\<close>

text \<open>
  C10.  For every n-gram length that \<^verbatim>\<open>get_prob\<close> accepts, every range the estimator
  forms from the n-gram (offsets \<open>i\<close> and \<open>i + 1\<close> for \<open>i = 0, \<dots>, N\<close>) stays inside the
  n-gram, so the estimator is total on the accepted inputs.  The code does not meet this:
  on every accepted n-gram the range that starts at offset \<open>N + 1\<close> lies beyond the end,
  and the call ends in a failure (at that range, or earlier at a range or an integer
  division), never in a value.
\<close>

theorem estimator_range_beyond_ngram:
  assumes "1 \<le> length ngram" and "int (length ngram) \<le> m_n m"
  shows "range_from ngram (nat (m_n m) + 1) = Inl InvalidRange
       \<and> (get_prob m acc0 acc1 ngram = Inl InvalidRange
          \<or> get_prob m acc0 acc1 ngram = Inl DivideByZero)"
proof -
  from assms have n: "0 \<le> m_n m" by simp
  from assms have "length ngram < nat (m_n m) + 1" by linarith
  then have "range_from ngram (nat (m_n m) + 1) = Inl InvalidRange"
    by (simp add: range_from_def)
  moreover from assms have "\<not> (length ngram < 1 \<or> int (length ngram) > m_n m)" by auto
  then have "get_prob m acc0 acc1 ngram = get_prob_witten_bell m acc0 acc1 ngram"
    unfolding get_prob_def by (rule if_not_P)
  ultimately show ?thesis using witten_bell_fails [OF n assms(2), of acc0 acc1] by simp
qed

theorem estimator_range_beyond_ngram_witness:
  "1 \<le> length [4::int] \<and> int (length [4::int]) \<le> m_n (untrained 1)
   \<and> range_from [4] (nat (m_n (untrained 1)) + 1) = Inl InvalidRange
   \<and> get_prob (untrained 1) 0 0 [4] = Inl InvalidRange"
  using estimator_range_beyond_ngram [of "[4]" "untrained 1" 0 0]
  by (simp add: run_eval)

section \<open>The scenario, trained and queried\<close>

text \<open>
  In the theorems of this section the ids are those of \<open>scenario_table\<close>: 1 the begin
  marker, 2 the end marker, 3 the unknown token, 4 \<open>the\<close>, 5 \<open>cat\<close>, 6 \<open>sat\<close>; the corpus is
  the one sentence \<open>the cat sat\<close>; \<open>acc0\<close> and \<open>acc1\<close> are arbitrary.
\<close>

text \<open>
  C1.  For every trained model and every n-gram of length 1 to \<open>N\<close>, the probability that
  \<^verbatim>\<open>get_prob\<close> returns is greater than 0 and at most 1.  The code does not meet this: with
  the default order 3, the query for \<open>the cat sat\<close> returns no probability; it fails at the
  range that starts beyond the end of the n-gram.
\<close>

theorem default_order_query_returns_no_probability:
  "\<exists>m. LangModel_new scenario_table ''<s>'' ''</s>'' ''<UNK>'' 3 [[''the'', ''cat'', ''sat'']] = Inr m
       \<and> get_prob m acc0 acc1 [4, 5, 6] = Inl InvalidRange"
  by (simp add: run_eval)

text \<open>
  C2.  \<^verbatim>\<open>get_prob\<close> computes the Witten-Bell recursion
  \<open>P(w|h) = \<lambda>(h) P\<^sub>M\<^sub>L(w|h) + (1 - \<lambda>(h)) P(w|h')\<close> with the uniform floor \<open>1 / V\<close> under the empty
  history.  The code does not meet this: at order 2, for the bigram \<open>the cat\<close>, the
  recursion over the trained counters has the value \<open>17 / 28\<close>, and the query fails.
\<close>

theorem recursion_not_computed:
  "\<exists>m. LangModel_new scenario_table ''<s>'' ''</s>'' ''<UNK>'' 2 [[''the'', ''cat'', ''sat'']] = Inr m
       \<and> get_prob m acc0 acc1 [4, 5] = Inl InvalidRange
       \<and> spec_prob m [4] 5 = 17 / 28"
  by (simp add: run_eval spec_eval)

text \<open>
  C3.  For every position of a real prediction target (never the leading padding, the end
  marker included) and every history length that fits, the trainer counts \<open>h @ [w]\<close> once
  as predicted, \<open>h\<close> once as a history, and \<open>h\<close> in the third counter exactly when
  \<open>h @ [w]\<close> was new.  The code does not meet this.  On the padded sentence
  \<open>[1, 4, 5, 6, 2]\<close> at order 2 it counts the begin marker as predicted (the rule: never),
  the end marker twice (the rule: once), \<open>sat\<close> never as a history although the end marker
  follows it, and no distinct continuation of \<open>cat\<close> although \<open>sat\<close> follows it.
\<close>

theorem counting_departs_from_rule:
  "get_count (m_predCounts (count_sentence_ngrams [1, 4, 5, 6, 2] (untrained 2))) [1] = 1
   \<and> get_count (m_predCounts (spec_count_sentence [1, 4, 5, 6, 2] (untrained 2))) [1] = 0
   \<and> get_count (m_predCounts (count_sentence_ngrams [1, 4, 5, 6, 2] (untrained 2))) [2] = 2
   \<and> get_count (m_predCounts (spec_count_sentence [1, 4, 5, 6, 2] (untrained 2))) [2] = 1
   \<and> get_count (m_histCounts (count_sentence_ngrams [1, 4, 5, 6, 2] (untrained 2))) [6] = 0
   \<and> get_count (m_histCounts (spec_count_sentence [1, 4, 5, 6, 2] (untrained 2))) [6] = 1
   \<and> get_count (m_histOnePlusCounts (count_sentence_ngrams [1, 4, 5, 6, 2] (untrained 2))) [5] = 0
   \<and> get_count (m_histOnePlusCounts (spec_count_sentence [1, 4, 5, 6, 2] (untrained 2))) [5] = 1"
  by (simp add: run_eval spec_eval)

text \<open>
  C4.  After training, the history count of every history \<open>h\<close> is the sum of the predicted
  counts of \<open>h @ [w]\<close> over all tokens \<open>w\<close>.  The code does not meet this: at order 2 the
  history \<open>sat\<close> has history count 0, and the predicted counts of its continuations, summed
  over the ids of the symbol table, are 1 (the bigram of \<open>sat\<close> and the end marker).
\<close>

theorem flow_conservation_broken:
  "\<exists>m. LangModel_new scenario_table ''<s>'' ''</s>'' ''<UNK>'' 2 [[''the'', ''cat'', ''sat'']] = Inr m
       \<and> get_count (m_histCounts m) [6] = 0
       \<and> (\<Sum>w\<leftarrow>map snd (m_symTable m). get_count (m_predCounts m) ([6] @ [w])) = 1"
  by (simp add: run_eval)

text \<open>
  C5.  In the scenario at order 2 the four bigrams of the padded sentence have predicted
  count 1, the empty history has history count 5, the history \<open>cat\<close> has history count 1 and
  one distinct continuation, and the query for \<open>cat sat\<close> is
  \<open>0.5 \<cdot> 1.0 + 0.5 \<cdot> P(sat | empty)\<close>.  The code gives the four bigram counts and the
  history count of \<open>cat\<close>; it gives 4 for the empty history and 0 distinct continuations
  of \<open>cat\<close>, and the query fails.
\<close>

theorem scenario_counts_and_query:
  "\<exists>m. LangModel_new scenario_table ''<s>'' ''</s>'' ''<UNK>'' 2 [[''the'', ''cat'', ''sat'']] = Inr m
       \<and> get_count (m_predCounts m) [1, 4] = 1 \<and> get_count (m_predCounts m) [4, 5] = 1
       \<and> get_count (m_predCounts m) [5, 6] = 1 \<and> get_count (m_predCounts m) [6, 2] = 1
       \<and> get_count (m_histCounts m) [] = 4
       \<and> get_count (m_histCounts m) [5] = 1
       \<and> get_count (m_histOnePlusCounts m) [5] = 0
       \<and> get_prob m acc0 acc1 [5, 6] = Inl InvalidRange"
  by (simp add: run_eval)

text \<open>
  C6.  No division performed while the smoothed probability is evaluated has a zero
  divisor.  The code does not meet this: at order 2 the query for \<open>cat\<close> followed by the
  unknown token divides the predicted count of the bigram by the predicted count of the
  unknown token, two \<^verbatim>\<open>int\<close>s, and the latter is 0.
\<close>

theorem integer_division_by_zero:
  "\<exists>m. LangModel_new scenario_table ''<s>'' ''</s>'' ''<UNK>'' 2 [[''the'', ''cat'', ''sat'']] = Inr m
       \<and> get_count (m_predCounts m) [3] = 0
       \<and> get_prob m acc0 acc1 [5, 3] = Inl DivideByZero"
  by (simp add: run_eval)

text \<open>
  C7.  After training on an empty corpus the three counters hold no count, and every
  query on an accepted n-gram returns exactly \<open>1 / V\<close>.  The counters are empty indeed; the
  queries return no value: at order 1 the query fails at the range beyond the n-gram, at
  order 2 at the integer division by a predicted count of 0.
\<close>

theorem empty_corpus_query_fails:
  "(\<exists>m. LangModel_new scenario_table ''<s>'' ''</s>'' ''<UNK>'' 1 [] = Inr m
        \<and> m_predCounts m = Map.empty \<and> m_histCounts m = Map.empty
        \<and> m_histOnePlusCounts m = Map.empty
        \<and> get_prob m acc0 acc1 [4] = Inl InvalidRange)
   \<and> (\<exists>m. LangModel_new scenario_table ''<s>'' ''</s>'' ''<UNK>'' 2 [] = Inr m
        \<and> m_predCounts m = Map.empty \<and> m_histCounts m = Map.empty
        \<and> m_histOnePlusCounts m = Map.empty
        \<and> get_prob m acc0 acc1 [4] = Inl DivideByZero
        \<and> get_prob m acc0 acc1 [4, 5] = Inl DivideByZero)"
  by (simp add: run_eval)

end
